theory Spec2Isabelle
  imports Main "HOL-Library.Word"
begin

section \<open>Data model of the uploader (src/common/upload.ts)\<close>

text \<open>
  A \<open>Buffer\<close> (and the content of a \<open>Readable\<close>) is a list of bytes. JavaScript
  numbers are modelled as integers: sizes, offsets, chunk sizes, batch sizes and
  concurrency values are \<open>int\<close>, list lengths and indices are \<open>nat\<close>.
\<close>

type_synonym buffer = "8 word list"

text \<open>The payload of a response, as far as the uploader inspects or replaces it.\<close>

datatype body =
    IdBody string          \<comment> \<open>\<open>{ id }\<close>\<close>
  | Offsets "int list"     \<comment> \<open>a JSON array of numbers\<close>
  | Opaque string          \<comment> \<open>anything else\<close>

text \<open>The fields of an \<open>AxiosResponse\<close> that the uploader reads or writes.\<close>

record response =
  status :: nat
  statusText :: string
  data :: body

text \<open>A JavaScript error value; the uploader only ever compares messages.\<close>

datatype error = Error string | TypeError string

fun message :: "error \<Rightarrow> string" where
  "message (Error m) = m"
| "message (TypeError m) = m"

text \<open>How an awaited promise ends: it resolves, it rejects, or it never settles.\<close>

datatype 'a outcome = Returned 'a | Threw error | Hangs

text \<open>An HTTP call made through \<open>this.api\<close> resolves with a response or rejects.\<close>

datatype 'a settled = Resolves 'a | Rejects error

text \<open>The requests the uploader sends (the currency, host and headers are left out).\<close>

datatype request =
    GET_chunks string int           \<comment> \<open>\<open>GET /chunks/{currency}/{id}/{size}\<close>\<close>
  | POST_chunk string int buffer    \<comment> \<open>\<open>POST /chunks/{currency}/{id}/{offset}\<close> with the chunk\<close>
  | POST_finish string              \<comment> \<open>\<open>POST /chunks/{currency}/{id}/-1\<close>\<close>
  | POST_tx buffer                  \<comment> \<open>\<open>POST /tx/{currency}\<close> with the whole payload\<close>

text \<open>
  What a run does, in order: a request sent, a chunk upload started by
  \<open>promiseFactory\<close>, and an \<open>await Promise.all(processing)\<close> that completed over
  \<open>n\<close> promises.
\<close>

datatype event = Request request | Started int | Awaited nat

text \<open>
  The world a run acts on: the state of the server and the events so far. The server
  is a parameter, the \<open>api\<close> of the uploader: from its state and a request it gives
  the settled call and its next state. The \<open>Api\<close> class is not among the sources.
\<close>

record 's world =
  server :: 's
  trace :: "event list"

type_synonym 's api = "'s \<Rightarrow> request \<Rightarrow> response settled \<times> 's"

definition log :: "event \<Rightarrow> 's world \<Rightarrow> 's world" where
  "log e w = w\<lparr>trace := trace w @ [e]\<rparr>"

definition api_call :: "'s api \<Rightarrow> request \<Rightarrow> 's world \<Rightarrow> response settled \<times> 's world" where
  "api_call h rq w =
     (case h (server w) rq of
        (r, s') \<Rightarrow> (r, \<lparr>server = s', trace = trace w @ [Request rq]\<rparr>))"

subsection \<open>Numbers and strings of JavaScript\<close>

text \<open>
  The remainder operator \<open>a % b\<close> on integers: the result has the sign of the dividend,
  and \<open>a % 0\<close> is \<open>NaN\<close> (\<open>None\<close>).
\<close>

definition js_rem :: "int \<Rightarrow> int \<Rightarrow> int option" where
  "js_rem a b = (if b = 0 then None else Some (sgn a * (\<bar>a\<bar> mod \<bar>b\<bar>)))"

text \<open>The decimal text of a number inside a template string.\<close>

function show_nat :: "nat \<Rightarrow> string" where
  "show_nat n =
     (if n < 10 then [''0123456789'' ! n]
      else show_nat (n div 10) @ [''0123456789'' ! (n mod 10)])"
  by pat_completeness auto
termination
  by (relation "measure (\<lambda>n. n)") auto

declare show_nat.simps [simp del]

section \<open>Collaborators that are not part of the sources\<close>

text \<open>
  Modelled from the spec: the retry executor (the \<open>async-retry\<close> package, not among
  the sources). It "executes an asynchronous operation" again after "any other raised
  error ... until attempts are exhausted, after which the last error is surfaced"; a
  call of "bail(error) ... immediately stops further retries and surfaces error". The
  number of further attempts after the first is the argument \<open>r\<close>: how the package
  derives it from the options it is given is the parameter \<open>retry_budget\<close> below. The
  delays between attempts are not modelled. \<open>Stuck\<close> is an attempt that never settles.
\<close>

datatype 'a attempt = Done 'a | Fail error | Bail error | Stuck

record retry_options =
  retries :: nat
  minTimeout :: nat
  maxTimeout :: nat

fun retry :: "('w \<Rightarrow> 'a attempt \<times> 'w) \<Rightarrow> nat \<Rightarrow> 'w \<Rightarrow> 'a outcome \<times> 'w" where
  "retry fn 0 w =
     (case fn w of
        (Done v, w') \<Rightarrow> (Returned v, w')
      | (Fail e, w') \<Rightarrow> (Threw e, w')
      | (Bail e, w') \<Rightarrow> (Threw e, w')
      | (Stuck, w') \<Rightarrow> (Hangs, w'))"
| "retry fn (Suc r) w =
     (case fn w of
        (Done v, w') \<Rightarrow> (Returned v, w')
      | (Fail e, w') \<Rightarrow> retry fn r w'
      | (Bail e, w') \<Rightarrow> (Threw e, w')
      | (Stuck, w') \<Rightarrow> (Hangs, w'))"

text \<open>
  Modelled from the spec: the chunker (\<open>./chunker\<close> read through \<open>./s2ai\<close>, neither
  among the sources), created with \<open>flushTail: true\<close>. It "turns a byte stream into an
  ordered sequence of fixed-size byte chunks, with the final chunk shorter if needed",
  "covering the source exactly once". A chunk size of 0 yields nothing here; the
  uploader never asks for it.
\<close>

function chunker :: "nat \<Rightarrow> 'a list \<Rightarrow> 'a list list" where
  "chunker c xs = (if c = 0 \<or> xs = [] then [] else take c xs # chunker c (drop c xs))"
  by pat_completeness auto
termination
  by (relation "measure (\<lambda>(c, xs). length xs)") auto

declare chunker.simps [simp del]

text \<open>
  Modelled from the spec: \<open>Utils.checkAndThrow\<close> (\<open>./utils\<close>, not among the sources).
  For the finalize call "any other non-success status yields FatalFailure"; the
  presence query succeeds with status 200. So a response passes when its status is
  200 or one of the listed exceptions, and otherwise an error naming the context and
  the status is thrown.
\<close>

definition checkAndThrow :: "response \<Rightarrow> string \<Rightarrow> nat list \<Rightarrow> error option" where
  "checkAndThrow res context exceptions =
     (if status res \<notin> set exceptions \<and> status res \<noteq> 200
      then Some (Error (''HTTP Error: '' @ context @ '': '' @ show_nat (status res) @ '' '' @ statusText res))
      else None)"

section \<open>The uploader\<close>

text \<open>A \<open>DataItem\<close>: its raw bytes and its id.\<close>

record transaction =
  raw :: buffer
  txid :: string

text \<open>
  The \<open>Uploader\<close> object and what it is linked with: the HTTP API, the
  \<open>forceUseChunking\<close> flag, \<open>createData\<close> followed by \<open>sign\<close> with the currency's
  signer (external; assumed to succeed), and the number of retries the retry package
  makes for the options it receives (\<open>None\<close>: called without options).
\<close>

record 's uploader =
  api :: "'s api"
  forceUseChunking :: bool
  createData :: "buffer \<Rightarrow> transaction"
  retry_budget :: "retry_options option \<Rightarrow> nat"

subsection \<open>chunkedTransactionUploader\<close>

text \<open>
  The promise \<open>promiseFactory\<close> returns. Its executor only ever calls the resolve
  function \<open>r\<close>, from the \<open>then\<close> of a post that succeeded; the promise of \<open>retry\<close> is
  dropped. So the promise is resolved with \<open>{ o, d: re }\<close> or stays pending for ever.
\<close>

datatype promise = Resolved int response | Pending

text \<open>
  \<open>promiseFactory(d, o)\<close>: \<open>retry\<close> is called with the posting function alone; the
  object \<open>{ retries: 3, minTimeout: 1000, maxTimeout: 10_000 }\<close> stands after the call,
  behind a comma, and is not an argument. The status of the response is not read.
\<close>

definition post_chunk_attempt ::
  "'s uploader \<Rightarrow> string \<Rightarrow> buffer \<Rightarrow> int \<Rightarrow> 's world \<Rightarrow> response attempt \<times> 's world" where
  "post_chunk_attempt u ident d off w =
     (case api_call (api u) (POST_chunk ident off d) w of
        (Resolves re, w') \<Rightarrow> (Done re, w')
      | (Rejects e, w') \<Rightarrow> (Fail e, w'))"

definition promiseFactory ::
  "'s uploader \<Rightarrow> string \<Rightarrow> buffer \<Rightarrow> int \<Rightarrow> 's world \<Rightarrow> promise \<times> 's world" where
  "promiseFactory u ident d off w =
     (case retry (post_chunk_attempt u ident d off) (retry_budget u None) (log (Started off) w) of
        (Returned re, w') \<Rightarrow> (Resolved off re, w')
      | (Threw e, w') \<Rightarrow> (Pending, w')
      | (Hangs, w') \<Rightarrow> (Pending, w'))"

text \<open>
  The offsets \<open>s = i * chunkSize\<close> the first loop runs over, for
  \<open>i = 0, ..., chunks\<close>, and those of them it pushes on \<open>missing\<close>. With a \<open>NaN\<close>
  remainder the loop condition is false at once.
\<close>

definition candidate_offsets :: "int \<Rightarrow> int \<Rightarrow> int list" where
  "candidate_offsets sz chunkSize =
     (case js_rem sz chunkSize of
        None \<Rightarrow> []
      | Some remainder \<Rightarrow>
          (let chunks = (sz - remainder) div chunkSize
           in map (\<lambda>i. int i * chunkSize) [0..<nat (chunks + 1)]))"

definition missing_offsets :: "int \<Rightarrow> int \<Rightarrow> int list \<Rightarrow> int list" where
  "missing_offsets sz chunkSize present =
     filter (\<lambda>s. s \<notin> set present) (candidate_offsets sz chunkSize)"

text \<open>
  \<open>await Promise.all(processing)\<close>: it completes when every promise is resolved (none
  can reject), and never when one stays pending.
\<close>

definition await_all :: "promise list \<Rightarrow> 's world \<Rightarrow> 's world option" where
  "await_all processing w =
     (if Pending \<in> set processing then None
      else Some (log (Awaited (length processing)) w))"

text \<open>
  The loop over the chunks, from the state \<open>offset\<close>, \<open>processing\<close>. \<open>None\<close>: an await
  inside the loop never completes. The uploads of one window run concurrently; the
  trace lists the requests of each upload together, in the order of admission.
\<close>

fun upload_loop ::
  "'s uploader \<Rightarrow> string \<Rightarrow> int \<Rightarrow> int list \<Rightarrow> buffer list \<Rightarrow> int \<Rightarrow> promise list \<Rightarrow> 's world
     \<Rightarrow> promise list option \<times> 's world" where
  "upload_loop u ident batchSize missing [] offset processing w = (Some processing, w)"
| "upload_loop u ident batchSize missing (d # cnks) offset processing w =
     (case (if int (length processing) = batchSize
            then map_option (Pair []) (await_all processing w)
            else Some (processing, w)) of
        None \<Rightarrow> (None, w)
      | Some (processing1, w1) \<Rightarrow>
          (if offset \<in> set missing
           then (case promiseFactory u ident d offset w1 of
                   (p, w2) \<Rightarrow>
                     upload_loop u ident batchSize missing cnks (offset + int (length d))
                       (processing1 @ [p]) w2)
           else upload_loop u ident batchSize missing cnks (offset + int (length d))
                  processing1 w1))"

definition finish_upload :: "'s uploader \<Rightarrow> string \<Rightarrow> 's world \<Rightarrow> response outcome \<times> 's world" where
  "finish_upload u ident w =
     (case api_call (api u) (POST_finish ident) w of
        (Rejects e, w') \<Rightarrow> (Threw e, w')
      | (Resolves finishUpload, w') \<Rightarrow>
          (if status finishUpload = 402 then (Threw (Error ''Not enough funds to send data''), w')
           else (case checkAndThrow finishUpload ''Finalising upload'' [201] of
                   Some e \<Rightarrow> (Threw e, w')
                 | None \<Rightarrow> (Returned finishUpload, w'))))"

definition upload_missing ::
  "'s uploader \<Rightarrow> buffer \<Rightarrow> string \<Rightarrow> int \<Rightarrow> int \<Rightarrow> int \<Rightarrow> int list \<Rightarrow> 's world
     \<Rightarrow> response outcome \<times> 's world" where
  "upload_missing u dataStream ident sz chunkSize batchSize present w =
     (case upload_loop u ident batchSize (missing_offsets sz chunkSize present)
             (chunker (nat chunkSize) dataStream) 0 [] w of
        (None, w1) \<Rightarrow> (Hangs, w1)
      | (Some processing, w1) \<Rightarrow>
          (case await_all processing w1 of
             None \<Rightarrow> (Hangs, w1)
           | Some w2 \<Rightarrow> finish_upload u ident w2))"

definition chunkedTransactionUploader ::
  "'s uploader \<Rightarrow> buffer \<Rightarrow> string \<Rightarrow> int \<Rightarrow> int \<Rightarrow> int \<Rightarrow> 's world
     \<Rightarrow> response outcome \<times> 's world" where
  "chunkedTransactionUploader u dataStream ident sz chunkSize batchSize w =
     (if chunkSize < 1000000 \<or> chunkSize > 190000000
      then (Threw (Error ''Invalid chunk size - must be betweem 100,000 and 190,000,000 bytes''), w)
      else if batchSize < 1
      then (Threw (Error ''batch size too small! must be >=1''), w)
      else (case api_call (api u) (GET_chunks ident sz) w of
              (Rejects e, w1) \<Rightarrow> (Threw e, w1)
            | (Resolves getres, w1) \<Rightarrow>
                (if status getres = 201 then (Returned (getres\<lparr>data := IdBody ident\<rparr>), w1)
                 else (case checkAndThrow getres ''Getting chunk info'' [] of
                         Some e \<Rightarrow> (Threw e, w1)
                       | None \<Rightarrow>
                           (case data getres of
                              Offsets present \<Rightarrow>
                                upload_missing u dataStream ident sz chunkSize batchSize present w1
                            | _ \<Rightarrow> (Threw (TypeError ''getres.data.map is not a function''), w1))))))"

subsection \<open>transactionUploader\<close>

text \<open>The \<open>switch\<close> on the status of the response, run after either path.\<close>

definition status_switch :: "transaction \<Rightarrow> response \<Rightarrow> response outcome" where
  "status_switch transaction res =
     (if status res = 201 then Returned (res\<lparr>data := IdBody (txid transaction)\<rparr>)
      else if status res = 402 then Threw (Error ''Not enough funds to send data'')
      else if status res \<ge> 400
      then Threw (Error (''whilst uploading DataItem: '' @ show_nat (status res) @ '' '' @ statusText res))
      else Returned res)"

definition transactionUploader ::
  "'s uploader \<Rightarrow> transaction \<Rightarrow> 's world \<Rightarrow> response outcome \<times> 's world" where
  "transactionUploader u transaction w =
     (let len = int (length (raw transaction)) in
      (case (if forceUseChunking u \<or> len > 50000000
             then chunkedTransactionUploader u (raw transaction) (txid transaction) len 25000000 5 w
             else (case api_call (api u) (POST_tx (raw transaction)) w of
                     (Resolves res, w') \<Rightarrow> (Returned res, w')
                   | (Rejects e, w') \<Rightarrow> (Threw e, w'))) of
         (Returned res, w') \<Rightarrow> (status_switch transaction res, w')
       | (Threw e, w') \<Rightarrow> (Threw e, w')
       | (Hangs, w') \<Rightarrow> (Hangs, w')))"

subsection \<open>concurrentUploader\<close>

text \<open>An input of \<open>concurrentUploader\<close>: a string, a \<open>Buffer\<close> or a \<open>DataItem\<close>.\<close>

datatype item = StringItem string | BufferItem buffer | DataItem transaction

definition buffer_from :: "string \<Rightarrow> buffer" where
  "buffer_from str = map (\<lambda>c. of_nat (of_char c)) str"

definition processItem :: "'s uploader \<Rightarrow> item \<Rightarrow> 's world \<Rightarrow> response outcome \<times> 's world" where
  "processItem u item w =
     transactionUploader u
       (case item of
          StringItem str \<Rightarrow> createData u (buffer_from str)
        | BufferItem b \<Rightarrow> createData u b
        | DataItem t \<Rightarrow> t) w"

text \<open>
  The value one attempt returns: \<open>{ item, res, i }\<close>, or what \<open>resultProcessor\<close> made
  of it. The callbacks are functions that resolve or reject (\<open>logFunction\<close>: with the
  error, if any).
\<close>

datatype 'r item_result = ItemResult item response nat | ProcessedResult 'r

text \<open>The \<open>catch\<close> block: \<open>bail(e)\<close> on the balance message, then \<open>throw e\<close>.\<close>

definition catch_rethrow :: "error \<Rightarrow> 'a attempt" where
  "catch_rethrow e = (if message e = ''Not enough funds to send data'' then Bail e else Fail e)"

text \<open>
  \<open>await logFunction(`Processed ${i} Items`)\<close> under \<open>i % concurrency == 0\<close>: calling
  the missing callback raises a \<open>TypeError\<close>; \<open>NaN == 0\<close> is false.
\<close>

definition log_progress :: "int \<Rightarrow> (string \<Rightarrow> error option) option \<Rightarrow> nat \<Rightarrow> error option" where
  "log_progress concurrency logFunction i =
     (if js_rem (int i) concurrency = Some 0
      then (case logFunction of
              None \<Rightarrow> Some (TypeError ''logFunction is not a function'')
            | Some f \<Rightarrow> f (''Processed '' @ show_nat i @ '' Items''))
      else None)"

definition item_attempt ::
  "'s uploader \<Rightarrow> int \<Rightarrow> (item \<Rightarrow> response \<Rightarrow> nat \<Rightarrow> 'r settled) option
     \<Rightarrow> (string \<Rightarrow> error option) option \<Rightarrow> item \<Rightarrow> nat \<Rightarrow> 's world
     \<Rightarrow> 'r item_result attempt \<times> 's world" where
  "item_attempt u concurrency resultProcessor logFunction item i w =
     (case processItem u item w of
        (Returned res, w') \<Rightarrow>
          (case log_progress concurrency logFunction i of
             Some e \<Rightarrow> (catch_rethrow e, w')
           | None \<Rightarrow>
               (case resultProcessor of
                  Some rp \<Rightarrow>
                    (case rp item res i of
                       Resolves v \<Rightarrow> (Done (ProcessedResult v), w')
                     | Rejects e \<Rightarrow> (catch_rethrow e, w'))
                | None \<Rightarrow> (Done (ItemResult item res i), w')))
      | (Threw e, w') \<Rightarrow> (catch_rethrow e, w')
      | (Hangs, w') \<Rightarrow> (Stuck, w'))"

text \<open>
  The function given to \<open>process\<close>: it awaits \<open>retry\<close> and returns nothing, so a task
  that succeeds contributes \<open>undefined\<close> (here \<open>()\<close>) to the results.
\<close>

definition item_task ::
  "'s uploader \<Rightarrow> int \<Rightarrow> (item \<Rightarrow> response \<Rightarrow> nat \<Rightarrow> 'r settled) option
     \<Rightarrow> (string \<Rightarrow> error option) option \<Rightarrow> item \<Rightarrow> nat \<Rightarrow> 's world
     \<Rightarrow> unit outcome \<times> 's world" where
  "item_task u concurrency resultProcessor logFunction item i w =
     (case retry (item_attempt u concurrency resultProcessor logFunction item i)
             (retry_budget u (Some \<lparr>retries = 3, minTimeout = 1000, maxTimeout = 10000\<rparr>)) w of
        (Returned v, w') \<Rightarrow> (Returned (), w')
      | (Threw e, w') \<Rightarrow> (Threw e, w')
      | (Hangs, w') \<Rightarrow> (Hangs, w'))"

text \<open>
  The function given to \<open>handleError\<close>: it pushes the error on \<open>errors\<close> and throws it
  again when it is the balance error.
\<close>

definition handleError :: "error \<Rightarrow> error list \<Rightarrow> error list \<times> error option" where
  "handleError e errors =
     (errors @ [e], if message e = ''Not enough funds to send data'' then Some e else None)"

text \<open>The argument of \<open>withConcurrency\<close>.\<close>

definition pool_concurrency :: "int \<Rightarrow> int" where
  "pool_concurrency concurrency = (if concurrency \<ge> 1 then concurrency else 5)"

text \<open>
  Modelled from the spec: the worker pool (the \<open>@supercharge/promise-pool\<close> package,
  not among the sources). It "runs a worker pool of width" \<open>workers\<close> "over the input
  items (order of dispatch is input order)"; an error of a task goes to the error
  handler, and an error the handler throws "aborts the entire pool": the call rejects
  and no further item is started. The results hold what the tasks that succeeded
  returned. Here the tasks run one after the other, in the order of dispatch. A task
  that never settles keeps its worker: the pool goes on with the workers left, stops
  dispatching when none is left, and never returns.
\<close>

fun pool_process ::
  "nat \<Rightarrow> ('a \<Rightarrow> nat \<Rightarrow> 'w \<Rightarrow> 'b outcome \<times> 'w) \<Rightarrow> (error \<Rightarrow> 'c \<Rightarrow> 'c \<times> error option)
     \<Rightarrow> 'a list \<Rightarrow> nat \<Rightarrow> 'c \<Rightarrow> 'b list \<Rightarrow> bool \<Rightarrow> 'w \<Rightarrow> ('c \<times> 'b list) outcome \<times> 'w" where
  "pool_process workers task handler [] i errs ress stuck w =
     (if stuck then (Hangs, w) else (Returned (errs, ress), w))"
| "pool_process workers task handler (x # xs) i errs ress stuck w =
     (if workers = 0 then (Hangs, w)
      else (case task x i w of
              (Returned r, w') \<Rightarrow>
                pool_process workers task handler xs (Suc i) errs (ress @ [r]) stuck w'
            | (Threw e, w') \<Rightarrow>
                (case handler e errs of
                   (errs', None) \<Rightarrow> pool_process workers task handler xs (Suc i) errs' ress stuck w'
                 | (errs', Some e') \<Rightarrow> (Threw e', w'))
            | (Hangs, w') \<Rightarrow>
                pool_process (workers - 1) task handler xs (Suc i) errs ress True w'))"

text \<open>What \<open>concurrentUploader\<close> returns: \<open>{ errors, results }\<close>.\<close>

record batch =
  errors :: "error list"
  results :: "unit list"

definition concurrentUploader ::
  "'s uploader \<Rightarrow> item list \<Rightarrow> int \<Rightarrow> (item \<Rightarrow> response \<Rightarrow> nat \<Rightarrow> 'r settled) option
     \<Rightarrow> (string \<Rightarrow> error option) option \<Rightarrow> 's world \<Rightarrow> batch outcome \<times> 's world" where
  "concurrentUploader u items concurrency resultProcessor logFunction w =
     (case pool_process (nat (pool_concurrency concurrency))
             (item_task u concurrency resultProcessor logFunction) handleError
             items 0 [] [] False w of
        (Returned (errs, ress), w') \<Rightarrow> (Returned \<lparr>errors = errs, results = ress\<rparr>, w')
      | (Threw e, w') \<Rightarrow> (Threw e, w')
      | (Hangs, w') \<Rightarrow> (Hangs, w'))"

section \<open>Reading a trace\<close>

text \<open>The offsets of the chunk uploads started, and of the chunk requests sent.\<close>

fun started :: "event list \<Rightarrow> int list" where
  "started [] = []"
| "started (Started off # es) = off # started es"
| "started (e # es) = started es"

fun posted :: "event list \<Rightarrow> int list" where
  "posted [] = []"
| "posted (Request (POST_chunk ident off d) # es) = off # posted es"
| "posted (e # es) = posted es"

text \<open>The offsets at which the chunks of a stream start, counted from \<open>off\<close>.\<close>

fun chunk_offsets :: "int \<Rightarrow> 'a list list \<Rightarrow> int list" where
  "chunk_offsets off [] = []"
| "chunk_offsets off (d # cnks) = off # chunk_offsets (off + int (length d)) cnks"

text \<open>
  The number of chunk uploads in flight after a trace: those started since the last
  completed \<open>Promise.all\<close>.
\<close>

definition in_flight_step :: "nat \<Rightarrow> event \<Rightarrow> nat" where
  "in_flight_step n e = (case e of Started off \<Rightarrow> Suc n | Awaited k \<Rightarrow> 0 | Request rq \<Rightarrow> n)"

definition in_flight :: "event list \<Rightarrow> nat" where
  "in_flight es = foldl in_flight_step 0 es"

text \<open>The largest number of uploads in flight during a trace that starts with \<open>n\<close> of them.\<close>

fun peak :: "nat \<Rightarrow> event list \<Rightarrow> nat" where
  "peak n [] = n"
| "peak n (e # es) = max n (peak (in_flight_step n e) es)"

section \<open>Servers and uploaders of the examples\<close>

definition reply :: "nat \<Rightarrow> body \<Rightarrow> response" where
  "reply n b = \<lparr>status = n, statusText = [], data = b\<rparr>"

text \<open>A server without state that answers each kind of request in a fixed way.\<close>

definition fixed_server ::
  "response settled \<Rightarrow> response settled \<Rightarrow> response settled \<Rightarrow> response settled \<Rightarrow> unit api" where
  "fixed_server g c f t s rq =
     (case rq of
        GET_chunks ident sz \<Rightarrow> (g, s)
      | POST_chunk ident off d \<Rightarrow> (c, s)
      | POST_finish ident \<Rightarrow> (f, s)
      | POST_tx d \<Rightarrow> (t, s))"

definition uploader_of :: "unit api \<Rightarrow> bool \<Rightarrow> unit uploader" where
  "uploader_of h force =
     \<lparr>api = h, forceUseChunking = force,
      createData = (\<lambda>b. \<lparr>raw = b, txid = ''item''\<rparr>),
      retry_budget = (\<lambda>opts. 2)\<rparr>"

definition start :: "unit world" where
  "start = \<lparr>server = (), trace = []\<rparr>"

text \<open>
  Three servers: one that holds the offsets \<open>present\<close> and accepts everything, one that
  answers every chunk upload with status 402, and one whose chunk uploads all fail
  with a network error.
\<close>

definition server_ok :: "int list \<Rightarrow> unit api" where
  "server_ok present =
     fixed_server (Resolves (reply 200 (Offsets present))) (Resolves (reply 200 (Opaque [])))
       (Resolves (reply 201 (Opaque []))) (Resolves (reply 201 (Opaque [])))"

definition server_402 :: "unit api" where
  "server_402 =
     fixed_server (Resolves (reply 200 (Offsets []))) (Resolves (reply 402 (Opaque [])))
       (Resolves (reply 201 (Opaque []))) (Resolves (reply 201 (Opaque [])))"

definition server_down :: "unit api" where
  "server_down =
     fixed_server (Resolves (reply 200 (Offsets []))) (Rejects (Error ''socket hang up''))
       (Resolves (reply 201 (Opaque []))) (Resolves (reply 201 (Opaque [])))"

text \<open>A server that answers the direct upload with the response \<open>res\<close>.\<close>

definition server_tx :: "response \<Rightarrow> unit api" where
  "server_tx res = fixed_server (Resolves (reply 200 (Offsets []))) (Resolves (reply 200 (Opaque [])))
     (Resolves (reply 201 (Opaque []))) (Resolves res)"

section \<open>Traces of the parts of a chunked upload\<close>

lemma chunker_Nil [simp]: "chunker c [] = []"
  by (simp add: chunker.simps)

lemma chunker_replicate:
  "chunker c (replicate n x) =
     (if c = 0 \<or> n = 0 then [] else replicate (min c n) x # chunker c (replicate (n - c) x))"
  by (subst chunker.simps) simp

lemma trace_log [simp]: "trace (log e w) = trace w @ [e]"
  by (simp add: log_def)

lemma server_log [simp]: "server (log e w) = server w"
  by (simp add: log_def)

lemma api_call_trace: "api_call h rq w = (r, w') \<Longrightarrow> trace w' = trace w @ [Request rq]"
  by (auto simp: api_call_def split: prod.splits)

lemma started_append [simp]: "started (xs @ ys) = started xs @ started ys"
  by (induction xs rule: started.induct) simp_all

lemma posted_append [simp]: "posted (xs @ ys) = posted xs @ posted ys"
  by (induction xs rule: posted.induct) simp_all

lemma started_requests [simp]: "started (replicate n (Request rq)) = []"
  by (induction n) simp_all

lemma posted_requests [simp]:
  "posted (replicate n (Request (POST_chunk ident off d))) = replicate n off"
  by (induction n) simp_all

text \<open>One attempt sends one request, and it settles.\<close>

lemma post_chunk_attempt_cases:
  "post_chunk_attempt u ident d off w = (a, w') \<Longrightarrow>
     trace w' = trace w @ [Request (POST_chunk ident off d)] \<and>
     ((\<exists>re. a = Done re) \<or> (\<exists>e. a = Fail e))"
  by (auto simp: post_chunk_attempt_def api_call_def split: prod.splits settled.splits)

text \<open>The retried post sends between one request and one more than the retries allowed.\<close>

lemma retry_post_trace:
  "retry (post_chunk_attempt u ident d off) r w = (res, w') \<Longrightarrow>
     \<exists>n. 1 \<le> n \<and> n \<le> Suc r \<and>
       trace w' = trace w @ replicate n (Request (POST_chunk ident off d)) \<and> res \<noteq> Hangs"
proof (induction r arbitrary: w)
  case 0
  obtain a w1 where a: "post_chunk_attempt u ident d off w = (a, w1)"
    by (cases "post_chunk_attempt u ident d off w")
  from post_chunk_attempt_cases [OF a] 0 a show ?case
    by (intro exI [of _ 1]) auto
next
  case (Suc r)
  obtain a w1 where a: "post_chunk_attempt u ident d off w = (a, w1)"
    by (cases "post_chunk_attempt u ident d off w")
  note c = post_chunk_attempt_cases [OF a]
  from c consider re where "a = Done re" | e where "a = Fail e" by blast
  then show ?case
  proof cases
    case 1
    with Suc.prems a c show ?thesis by (intro exI [of _ 1]) auto
  next
    case 2
    with Suc.prems a have "retry (post_chunk_attempt u ident d off) r w1 = (res, w')" by simp
    from Suc.IH [OF this] obtain n where n: "1 \<le> n" "n \<le> Suc r"
      "trace w' = trace w1 @ replicate n (Request (POST_chunk ident off d))" "res \<noteq> Hangs" by blast
    with c show ?thesis
      by (intro exI [of _ "Suc n"]) (simp add: replicate_append_same)
  qed
qed

lemma promiseFactory_trace:
  "promiseFactory u ident d off w = (p, w') \<Longrightarrow>
     \<exists>n. 1 \<le> n \<and> n \<le> Suc (retry_budget u None) \<and>
       trace w' = trace w @ Started off # replicate n (Request (POST_chunk ident off d))"
proof -
  assume pf: "promiseFactory u ident d off w = (p, w')"
  obtain res w1 where r:
    "retry (post_chunk_attempt u ident d off) (retry_budget u None) (log (Started off) w) = (res, w1)"
    by (cases "retry (post_chunk_attempt u ident d off) (retry_budget u None) (log (Started off) w)")
  with pf have "w' = w1" by (auto simp: promiseFactory_def split: outcome.splits)
  with retry_post_trace [OF r] show ?thesis by auto
qed

subsection \<open>Uploads in flight\<close>




lemma foldl_requests [simp]: "foldl in_flight_step n (replicate m (Request rq)) = n"
  by (induction m) (simp_all add: in_flight_step_def)

lemma peak_requests [simp]: "peak n (replicate m (Request rq)) = n"
  by (induction m) (simp_all add: in_flight_step_def)

lemma in_flight_append [simp]:
  "in_flight (es @ fs) = foldl in_flight_step (in_flight es) fs"
  by (simp add: in_flight_def)





lemma finish_upload_trace:
  "finish_upload u ident w = (r, w') \<Longrightarrow> trace w' = trace w @ [Request (POST_finish ident)]"
  by (auto simp: finish_upload_def api_call_def split: prod.splits settled.splits if_splits option.splits)



section \<open>Configuration errors\<close>

text \<open>
  C9. \<open>chunkedTransactionUploader\<close> throws a configuration error whenever
  \<open>chunkSize < 1,000,000\<close> or \<open>chunkSize > 190,000,000\<close> or \<open>batchSize < 1\<close>, and it does
  so before any request: the world it leaves is the world it was started in, with no
  event added and the server untouched.
\<close>

theorem invalid_configuration_raises:
  "chunkSize < 1000000 \<or> chunkSize > 190000000 \<or> batchSize < 1 \<Longrightarrow>
   chunkedTransactionUploader u dataStream ident sz chunkSize batchSize w =
     (Threw (Error (if chunkSize < 1000000 \<or> chunkSize > 190000000
                    then ''Invalid chunk size - must be betweem 100,000 and 190,000,000 bytes''
                    else ''batch size too small! must be >=1'')), w)"
  by (auto simp: chunkedTransactionUploader_def)

text \<open>The two inputs the specification names: a chunk size of 500,000 and a batch size of 0.\<close>

theorem invalid_configuration_raises_witness:
  "((500000::int) < 1000000 \<or> (500000::int) > 190000000 \<or> (5::int) < 1) \<and>
   chunkedTransactionUploader (uploader_of (server_ok []) False)
      (replicate 3000000 0) ''item'' 3000000 500000 5 start =
     (Threw (Error ''Invalid chunk size - must be betweem 100,000 and 190,000,000 bytes''), start) \<and>
   ((25000000::int) < 1000000 \<or> (25000000::int) > 190000000 \<or> (0::int) < 1) \<and>
   chunkedTransactionUploader (uploader_of (server_ok []) False)
      (replicate 3000000 0) ''item'' 3000000 25000000 0 start =
     (Threw (Error ''batch size too small! must be >=1''), start)"
  using invalid_configuration_raises
      [of 500000 5 "uploader_of (server_ok []) False" "replicate 3000000 0" "''item''" 3000000 start]
    invalid_configuration_raises
      [of 25000000 0 "uploader_of (server_ok []) False" "replicate 3000000 0" "''item''" 3000000 start]
  by simp

section \<open>The window of chunk uploads\<close>





section \<open>The chunks of a stream and the uploads of a run\<close>












lemma retry_Done: "fn w = (Done v, w') \<Longrightarrow> retry fn r w = (Returned v, w')"
  by (cases r) simp_all

lemma promiseFactory_answered:
  assumes "api u (server w) (POST_chunk ident off d) = (Resolves re, s')"
  shows "promiseFactory u ident d off w =
     (Resolved off re, \<lparr>server = s', trace = trace w @ [Started off, Request (POST_chunk ident off d)]\<rparr>)"
proof -
  from assms have "post_chunk_attempt u ident d off (log (Started off) w) =
      (Done re, \<lparr>server = s', trace = trace w @ [Started off, Request (POST_chunk ident off d)]\<rparr>)"
    by (simp add: post_chunk_attempt_def api_call_def)
  from retry_Done [of "post_chunk_attempt u ident d off" "log (Started off) w", OF this]
  show ?thesis by (simp add: promiseFactory_def)
qed

lemma upload_loop_answered:
  assumes ans: "\<forall>s off d. \<exists>re s'. api u s (POST_chunk ident off d) = (Resolves re, s')"
  shows "Pending \<notin> set processing \<Longrightarrow>
     \<exists>ps w'. upload_loop u ident b missing cnks offset processing w = (Some ps, w') \<and>
       Pending \<notin> set ps \<and>
       posted (trace w') =
         posted (trace w) @ filter (\<lambda>s. s \<in> set missing) (chunk_offsets offset cnks)"
proof (induction cnks arbitrary: offset processing w)
  case Nil
  then show ?case by simp
next
  case (Cons d cnks)
  let ?win = "if int (length processing) = b
              then map_option (Pair []) (await_all processing w) else Some (processing, w)"
  from Cons.prems obtain processing1 w1 where win: "?win = Some (processing1, w1)"
    and p1: "Pending \<notin> set processing1" and t1: "posted (trace w1) = posted (trace w)"
    by (cases "int (length processing) = b") (simp_all add: await_all_def)
  show ?case
  proof (cases "offset \<in> set missing")
    case False
    from Cons.IH [OF p1, of "offset + int (length d)" w1] win False t1
    show ?thesis by auto
  next
    case True
    from ans obtain re s' where "api u (server w1) (POST_chunk ident offset d) = (Resolves re, s')"
      by blast
    note pf = promiseFactory_answered [OF this]
    let ?w2 = "\<lparr>server = s', trace = trace w1 @ [Started offset, Request (POST_chunk ident offset d)]\<rparr>"
    from p1 have "Pending \<notin> set (processing1 @ [Resolved offset re])" by simp
    from Cons.IH [OF this, of "offset + int (length d)" ?w2] win True t1 pf
    show ?thesis by auto
  qed
qed


lemma concat_chunker: "0 < c \<Longrightarrow> concat (chunker c xs) = xs"
proof (induction c xs rule: chunker.induct)
  case (1 c xs)
  show ?case
  proof (cases "xs = []")
    case True
    then show ?thesis by simp
  next
    case False
    with "1.prems" have "chunker c xs = take c xs # chunker c (drop c xs)"
      by (subst chunker.simps) simp
    with "1.IH" "1.prems" False show ?thesis by simp
  qed
qed



lemma chunked_after_presence:
  assumes cfg: "1000000 \<le> c" "c \<le> 190000000" "1 \<le> b"
    and get: "api u (server w) (GET_chunks ident sz) = (Resolves getres, s1)"
      "status getres = 200" "data getres = Offsets present"
  shows "chunkedTransactionUploader u ds ident sz c b w =
     upload_missing u ds ident sz c b present
       \<lparr>server = s1, trace = trace w @ [Request (GET_chunks ident sz)]\<rparr>"
  using cfg get by (simp add: chunkedTransactionUploader_def api_call_def checkAndThrow_def)





section \<open>Which chunks are uploaded\<close>


text \<open>The equations that evaluate a run against one of the example servers.\<close>

lemmas run_simps =
  chunkedTransactionUploader_def uploader_of_def server_ok_def server_402_def server_down_def
  fixed_server_def api_call_def start_def reply_def checkAndThrow_def upload_missing_def
  missing_offsets_def candidate_offsets_def js_rem_def upt_rec chunker_replicate
  promiseFactory_def post_chunk_attempt_def log_def await_all_def finish_upload_def numeral_2_eq_2





section \<open>Chunk uploads the server refuses\<close>

text \<open>
  \<open>promiseFactory\<close> never reads the status of a response, so an upload the server
  answers, with whatever status, is resolved by its first attempt. When the server
  answers every chunk upload, each missing chunk is posted exactly once, in order, and
  the outcome of the run is that of the finalize call made afterwards.
\<close>

lemma answered_chunk_uploads_resolve:
  assumes cfg: "1000000 \<le> c" "c \<le> 190000000" "1 \<le> b"
    and get: "api u (server w) (GET_chunks ident sz) = (Resolves getres, s1)"
      "status getres = 200" "data getres = Offsets present"
    and answered: "\<forall>s off d. \<exists>re s'. api u s (POST_chunk ident off d) = (Resolves re, s')"
  shows "\<exists>w2. chunkedTransactionUploader u dataStream ident sz c b w = finish_upload u ident w2 \<and>
     posted (trace w2) =
       posted (trace w) @
         filter (\<lambda>s. s \<in> set (missing_offsets sz c present))
           (chunk_offsets 0 (chunker (nat c) dataStream))"
proof -
  let ?w1 = "\<lparr>server = s1, trace = trace w @ [Request (GET_chunks ident sz)]\<rparr>"
  let ?missing = "missing_offsets sz c present"
  have "Pending \<notin> set []" by simp
  from upload_loop_answered [OF answered this, of b ?missing "chunker (nat c) dataStream" 0 ?w1]
  obtain ps w' where loop:
      "upload_loop u ident b ?missing (chunker (nat c) dataStream) 0 [] ?w1 = (Some ps, w')"
    and ps: "Pending \<notin> set ps"
    and post: "posted (trace w') =
        posted (trace ?w1) @ filter (\<lambda>s. s \<in> set ?missing) (chunk_offsets 0 (chunker (nat c) dataStream))"
    by blast
  let ?w2 = "log (Awaited (length ps)) w'"
  from ps have aw: "await_all ps w' = Some ?w2" by (simp add: await_all_def)
  have "chunkedTransactionUploader u dataStream ident sz c b w = finish_upload u ident ?w2"
    unfolding chunked_after_presence [OF cfg get] using loop aw by (simp add: upload_missing_def)
  moreover from post have "posted (trace ?w2) =
      posted (trace w) @ filter (\<lambda>s. s \<in> set ?missing) (chunk_offsets 0 (chunker (nat c) dataStream))"
    by simp
  ultimately show ?thesis by blast
qed

text \<open>
  C2 at an input where it fails: two chunks, a batch size of 1, and a server that
  answers every chunk upload with status 402. The first chunk is posted once, as the
  claim says; but its promise resolves, the second chunk is posted as well, the
  finalize request is sent, and the uploader returns its 201 response. The balance
  error is thrown for a 402 of the finalize call and of the direct upload only.
\<close>

theorem chunk_402_does_not_abort:
  "chunkedTransactionUploader (uploader_of server_402 False)
      (replicate 2000000 0) ''item'' 2000000 1000000 1 start =
     (Returned (reply 201 (Opaque [])),
      \<lparr>server = (), trace =
         [Request (GET_chunks ''item'' 2000000),
          Started 0, Request (POST_chunk ''item'' 0 (replicate 1000000 0)),
          Awaited 1,
          Started 1000000, Request (POST_chunk ''item'' 1000000 (replicate 1000000 0)),
          Awaited 1,
          Request (POST_finish ''item'')]\<rparr>)"
  by (simp add: run_simps)

section \<open>Chunk uploads that fail every attempt\<close>

text \<open>
  C3 at an input where it fails: one chunk, and a server whose chunk uploads all fail
  with a network error. The retry executor gives up after the attempts it allows when
  called without options (three for this uploader); the options written in the source
  are not passed to it. The error it ends with is dropped, the promise of the chunk
  stays pending, and the final \<open>await Promise.all(processing)\<close> never completes: no
  error is surfaced and the finalize request is never sent.
\<close>

theorem exhausted_chunk_upload_hangs:
  "chunkedTransactionUploader (uploader_of server_down False)
      (replicate 1000000 0) ''item'' 1000000 1000000 5 start =
     (Hangs,
      \<lparr>server = (), trace =
         [Request (GET_chunks ''item'' 1000000),
          Started 0,
          Request (POST_chunk ''item'' 0 (replicate 1000000 0)),
          Request (POST_chunk ''item'' 0 (replicate 1000000 0)),
          Request (POST_chunk ''item'' 0 (replicate 1000000 0))]\<rparr>)"
  by (simp add: run_simps)

section \<open>The two paths of transactionUploader\<close>

lemma upload_loop_extends:
  "upload_loop u ident b missing cnks offset processing w = (res, w') \<Longrightarrow>
     \<exists>es. trace w' = trace w @ es"
proof (induction cnks arbitrary: offset processing w)
  case Nil
  then show ?case by simp
next
  case (Cons d cnks)
  let ?win = "if int (length processing) = b
              then map_option (Pair []) (await_all processing w) else Some (processing, w)"
  show ?case
  proof (cases ?win)
    case None
    with Cons.prems show ?thesis by simp
  next
    case (Some pw)
    obtain processing1 w1 where pw: "pw = (processing1, w1)" by (cases pw)
    from Some pw have t1: "\<exists>es. trace w1 = trace w @ es"
      by (auto simp: await_all_def split: if_splits)
    show ?thesis
    proof (cases "offset \<in> set missing")
      case False
      with Some pw Cons.prems
      have "upload_loop u ident b missing cnks (offset + int (length d)) processing1 w1 = (res, w')"
        by simp
      from Cons.IH [OF this] t1 show ?thesis by auto
    next
      case True
      obtain p w2 where pf: "promiseFactory u ident d offset w1 = (p, w2)"
        by (cases "promiseFactory u ident d offset w1")
      with True Some pw Cons.prems
      have "upload_loop u ident b missing cnks (offset + int (length d)) (processing1 @ [p]) w2
                 = (res, w')"
        by simp
      from Cons.IH [OF this] promiseFactory_trace [OF pf] t1 show ?thesis by auto
    qed
  qed
qed

lemma upload_missing_extends:
  "\<exists>es. trace (snd (upload_missing u ds ident sz c b present w)) = trace w @ es"
proof -
  let ?missing = "missing_offsets sz c present"
  obtain res w1 where loop:
    "upload_loop u ident b ?missing (chunker (nat c) ds) 0 [] w = (res, w1)"
    by (cases "upload_loop u ident b ?missing (chunker (nat c) ds) 0 [] w")
  from upload_loop_extends [OF loop] obtain es where es: "trace w1 = trace w @ es" by blast
  show ?thesis
  proof (cases res)
    case None
    with loop es show ?thesis by (simp add: upload_missing_def)
  next
    case (Some ps)
    show ?thesis
    proof (cases "await_all ps w1")
      case None
      with Some loop es show ?thesis by (simp add: upload_missing_def)
    next
      case (Some w2)
      obtain r w3 where fin: "finish_upload u ident w2 = (r, w3)"
        by (cases "finish_upload u ident w2")
      from Some have "trace w2 = trace w1 @ [Awaited (length ps)]"
        by (auto simp: await_all_def split: if_splits)
      with finish_upload_trace [OF fin] es Some \<open>res = Some ps\<close> loop fin
      show ?thesis by (simp add: upload_missing_def)
    qed
  qed
qed

lemma chunked_starts_with_presence_query:
  assumes "1000000 \<le> c" "c \<le> 190000000" "1 \<le> b"
  shows "\<exists>es. trace (snd (chunkedTransactionUploader u ds ident sz c b w)) =
     trace w @ Request (GET_chunks ident sz) # es"
proof -
  obtain g w1 where get: "api_call (api u) (GET_chunks ident sz) w = (g, w1)"
    by (cases "api_call (api u) (GET_chunks ident sz) w")
  from api_call_trace [OF get] have t1: "trace w1 = trace w @ [Request (GET_chunks ident sz)]" .
  have um: "\<exists>es. trace (snd (upload_missing u ds ident sz c b present w1)) =
      trace w @ Request (GET_chunks ident sz) # es" for present
    using upload_missing_extends [of u ds ident sz c b present w1] t1 by auto
  show ?thesis
    using assms get t1 um
    by (auto simp: chunkedTransactionUploader_def split: settled.splits option.splits body.splits)
qed

lemma transactionUploader_world:
  "snd (transactionUploader u t w) =
     (if forceUseChunking u \<or> int (length (raw t)) > 50000000
      then snd (chunkedTransactionUploader u (raw t) (txid t) (int (length (raw t))) 25000000 5 w)
      else snd (api_call (api u) (POST_tx (raw t)) w))"
  by (auto simp: transactionUploader_def Let_def split: prod.splits outcome.splits settled.splits)

text \<open>
  C7. \<open>transactionUploader\<close> hands the transaction to \<open>chunkedTransactionUploader\<close> (with
  the default chunk size and batch size, so that the first request is the presence
  query) exactly when \<open>forceUseChunking\<close> is set or the raw length exceeds 50,000,000;
  exactly otherwise its only request is one \<open>POST /tx\<close> carrying the whole payload.
\<close>

theorem chunking_decision:
  "((\<exists>es. trace (snd (transactionUploader u t w)) =
        trace w @ Request (GET_chunks (txid t) (int (length (raw t)))) # es)
      = (forceUseChunking u \<or> int (length (raw t)) > 50000000)) \<and>
   ((trace (snd (transactionUploader u t w)) = trace w @ [Request (POST_tx (raw t))])
      = (\<not> forceUseChunking u \<and> int (length (raw t)) \<le> 50000000)) \<and>
   (forceUseChunking u \<or> int (length (raw t)) > 50000000 \<longrightarrow>
      transactionUploader u t w =
        (case chunkedTransactionUploader u (raw t) (txid t) (int (length (raw t))) 25000000 5 w of
           (Returned res, w') \<Rightarrow> (status_switch t res, w')
         | (Threw e, w') \<Rightarrow> (Threw e, w')
         | (Hangs, w') \<Rightarrow> (Hangs, w')))"
proof (cases "forceUseChunking u \<or> int (length (raw t)) > 50000000")
  case True
  have "(1000000::int) \<le> 25000000" "(25000000::int) \<le> 190000000" "(1::int) \<le> 5" by simp_all
  from chunked_starts_with_presence_query [OF this, of u "raw t" "txid t" "int (length (raw t))" w]
  obtain es where es: "trace (snd (transactionUploader u t w)) =
      trace w @ Request (GET_chunks (txid t) (int (length (raw t)))) # es"
    using True by (auto simp: transactionUploader_world)
  with True show ?thesis by (auto simp: transactionUploader_def Let_def)
next
  case False
  obtain r w1 where call: "api_call (api u) (POST_tx (raw t)) w = (r, w1)"
    by (cases "api_call (api u) (POST_tx (raw t)) w")
  from api_call_trace [OF call] False call
  have "trace (snd (transactionUploader u t w)) = trace w @ [Request (POST_tx (raw t))]"
    by (simp add: transactionUploader_world)
  with False show ?thesis by auto
qed


text \<open>
  Without the flag, a payload of exactly 50,000,000 bytes is posted directly, and one
  of 50,000,001 bytes starts with the presence query.
\<close>

theorem chunking_decision_witness:
  "trace (snd (transactionUploader (uploader_of (server_ok []) False)
      \<lparr>raw = replicate 50000000 0, txid = ''item''\<rparr> start)) =
     trace start @ [Request (POST_tx (replicate 50000000 0))] \<and>
   \<not> forceUseChunking (uploader_of (server_ok []) False) \<and>
   int (length (raw \<lparr>raw = replicate 50000000 (0::8 word), txid = ''item''\<rparr>)) \<le> 50000000 \<and>
   (\<exists>es. trace (snd (transactionUploader (uploader_of (server_ok []) False)
      \<lparr>raw = replicate 50000001 0, txid = ''item''\<rparr> start)) =
     trace start @ Request (GET_chunks ''item'' 50000001) # es) \<and>
   int (length (raw \<lparr>raw = replicate 50000001 (0::8 word), txid = ''item''\<rparr>)) > 50000000"
proof -
  let ?u = "uploader_of (server_ok []) False"
  note small = chunking_decision [of ?u "\<lparr>raw = replicate 50000000 0, txid = ''item''\<rparr>" start]
  note large = chunking_decision [of ?u "\<lparr>raw = replicate 50000001 0, txid = ''item''\<rparr>" start]
  have d1: "trace (snd (transactionUploader ?u \<lparr>raw = replicate 50000000 0, txid = ''item''\<rparr> start)) =
     trace start @ [Request (POST_tx (replicate 50000000 0))]"
    using small [THEN conjunct2, THEN conjunct1] by (simp add: uploader_of_def)
  have d2: "\<exists>es. trace (snd (transactionUploader ?u \<lparr>raw = replicate 50000001 0, txid = ''item''\<rparr> start)) =
     trace start @ Request (GET_chunks ''item'' 50000001) # es"
    using large [THEN conjunct1] by simp
  from d1 d2 show ?thesis by (simp add: uploader_of_def)
qed

text \<open>
  C8. On the direct path, when the post resolves with a response: status 201 returns
  the response with its body replaced by the id of the transaction; status 402 throws
  the balance error; any other status of 400 or more throws an error that carries the
  status and the status text; every remaining status returns the response as it is.
\<close>

theorem direct_status_mapping:
  assumes direct: "\<not> forceUseChunking u" "int (length (raw t)) \<le> 50000000"
    and post: "api u (server w) (POST_tx (raw t)) = (Resolves res, s')"
  shows "(status res = 201 \<longrightarrow>
        fst (transactionUploader u t w) = Returned (res\<lparr>data := IdBody (txid t)\<rparr>)) \<and>
     (status res = 402 \<longrightarrow>
        fst (transactionUploader u t w) = Threw (Error ''Not enough funds to send data'')) \<and>
     (status res \<ge> 400 \<and> status res \<noteq> 402 \<longrightarrow>
        fst (transactionUploader u t w) =
          Threw (Error (''whilst uploading DataItem: '' @ show_nat (status res) @ '' '' @ statusText res))) \<and>
     (status res < 400 \<and> status res \<noteq> 201 \<longrightarrow>
        fst (transactionUploader u t w) = Returned res)"
  using assms by (simp add: transactionUploader_def Let_def api_call_def status_switch_def)

text \<open>Responses with status 201, 402, 500 and 200, to a payload of 1,000 bytes.\<close>

theorem direct_status_mapping_witness:
  "\<not> forceUseChunking (uploader_of (server_tx (reply 201 (Opaque ''ok''))) False) \<and>
   int (length (raw \<lparr>raw = replicate 1000 (0::8 word), txid = ''item''\<rparr>)) \<le> 50000000 \<and>
   api (uploader_of (server_tx (reply 201 (Opaque ''ok''))) False)
       (server start) (POST_tx (raw \<lparr>raw = replicate 1000 (0::8 word), txid = ''item''\<rparr>)) =
     (Resolves (reply 201 (Opaque ''ok'')), ()) \<and>
   fst (transactionUploader (uploader_of (server_tx (reply 201 (Opaque ''ok''))) False)
       \<lparr>raw = replicate 1000 0, txid = ''item''\<rparr> start) =
     Returned (reply 201 (IdBody ''item'')) \<and>
   fst (transactionUploader (uploader_of (server_tx (reply 402 (Opaque ''no''))) False)
       \<lparr>raw = replicate 1000 0, txid = ''item''\<rparr> start) =
     Threw (Error ''Not enough funds to send data'') \<and>
   fst (transactionUploader
       (uploader_of (server_tx \<lparr>status = 500, statusText = ''Internal Server Error'', data = Opaque ''failed''\<rparr>) False)
       \<lparr>raw = replicate 1000 0, txid = ''item''\<rparr> start) =
     Threw (Error ''whilst uploading DataItem: 500 Internal Server Error'') \<and>
   fst (transactionUploader (uploader_of (server_tx (reply 200 (Opaque ''ok''))) False)
       \<lparr>raw = replicate 1000 0, txid = ''item''\<rparr> start) =
     Returned (reply 200 (Opaque ''ok''))"
proof -
  let ?t = "\<lparr>raw = replicate 1000 (0::8 word), txid = ''item''\<rparr>"
  have direct: "\<not> forceUseChunking (uploader_of (server_tx res) False)"
    "int (length (raw ?t)) \<le> 50000000" for res
    by (simp_all add: uploader_of_def)
  have post: "api (uploader_of (server_tx res) False) (server start) (POST_tx (raw ?t)) =
      (Resolves res, ())" for res
    by (simp add: uploader_of_def server_tx_def fixed_server_def)
  note m = direct_status_mapping [OF direct post]
  from m [of "reply 201 (Opaque ''ok'')"] m [of "reply 402 (Opaque ''no'')"]
    m [of "\<lparr>status = 500, statusText = ''Internal Server Error'', data = Opaque ''failed''\<rparr>"]
    m [of "reply 200 (Opaque ''ok'')"]
  show ?thesis
    using direct post by (simp add: reply_def show_nat.simps)
qed

section \<open>The width of the pool\<close>




section \<open>The batch uploader\<close>












text \<open>
  What the batch does when every task settles: it rejects only with the balance error,
  which a task meets after a single attempt.
\<close>

lemma pool_rejects_on_balance_error:
  "pool_process workers task handleError xs k errs ress stuck w = (Threw e, w') \<Longrightarrow>
     message e = ''Not enough funds to send data''"
proof (induction xs arbitrary: workers k errs ress stuck w)
  case Nil
  then show ?case by (auto split: if_splits)
next
  case (Cons x xs)
  from Cons.prems have wk: "workers \<noteq> 0" by (auto split: if_splits)
  obtain out w1 where t: "task x k w = (out, w1)" by (cases "task x k w")
  show ?case
  proof (cases out)
    case (Returned r)
    with Cons.prems wk t show ?thesis by (auto dest: Cons.IH)
  next
    case (Threw e0)
    have h: "handleError e0 errs =
        (errs @ [e0], if message e0 = ''Not enough funds to send data'' then Some e0 else None)"
      by (simp add: handleError_def)
    from Cons.prems wk t Threw
    have "(case handleError e0 errs of
             (errs1, None) \<Rightarrow> pool_process workers task handleError xs (Suc k) errs1 ress stuck w1
           | (errs1, Some e') \<Rightarrow> (Threw e', w1)) = (Threw e, w')"
      by simp
    then show ?thesis
      unfolding h by (cases "message e0 = ''Not enough funds to send data''") (auto dest: Cons.IH)
  next
    case Hangs
    with Cons.prems wk t show ?thesis by (auto dest: Cons.IH)
  qed
qed

lemma batch_rejects_on_balance_error:
  "concurrentUploader u items concurrency rp lf w = (Threw e, w') \<Longrightarrow>
     message e = ''Not enough funds to send data''"
  by (auto simp: concurrentUploader_def split: prod.splits outcome.splits
      dest: pool_rejects_on_balance_error)

lemma balance_error_is_not_retried:
  assumes "processItem u item w = (Threw e, w1)" "message e = ''Not enough funds to send data''"
  shows "item_task u concurrency rp lf item i w = (Threw e, w1)"
proof -
  from assms have "item_attempt u concurrency rp lf item i w = (Bail e, w1)"
    by (simp add: item_attempt_def catch_rethrow_def)
  then have "retry (item_attempt u concurrency rp lf item i) r w = (Threw e, w1)" for r
    by (cases r) simp_all
  then show ?thesis by (simp add: item_task_def)
qed

text \<open>An item of 1,000,000 bytes under forced chunking, against the failing server.\<close>

lemma candidates_one_chunk: "candidate_offsets 1000000 25000000 = [0]"
  by (simp add: candidate_offsets_def js_rem_def upt_rec)

lemma chunker_one_chunk: "chunker 25000000 (replicate 1000000 (0::8 word)) = [replicate 1000000 0]"
  by (simp add: chunker_replicate)

lemma forced_chunked_hangs:
  "chunkedTransactionUploader (uploader_of server_down True)
      (replicate 1000000 0) ''item'' 1000000 25000000 5 w =
     (Hangs,
      \<lparr>server = server w, trace = trace w @
         [Request (GET_chunks ''item'' 1000000),
          Started 0,
          Request (POST_chunk ''item'' 0 (replicate 1000000 0)),
          Request (POST_chunk ''item'' 0 (replicate 1000000 0)),
          Request (POST_chunk ''item'' 0 (replicate 1000000 0))]\<rparr>)"
  by (simp add: chunkedTransactionUploader_def uploader_of_def server_down_def
      fixed_server_def api_call_def reply_def checkAndThrow_def upload_missing_def
      missing_offsets_def candidates_one_chunk chunker_one_chunk
      promiseFactory_def post_chunk_attempt_def log_def await_all_def numeral_2_eq_2)


lemma forced_chunking_hangs:
  "transactionUploader (uploader_of server_down True)
      \<lparr>raw = replicate 1000000 0, txid = ''item''\<rparr> w =
     (Hangs,
      \<lparr>server = server w, trace = trace w @
         [Request (GET_chunks ''item'' 1000000),
          Started 0,
          Request (POST_chunk ''item'' 0 (replicate 1000000 0)),
          Request (POST_chunk ''item'' 0 (replicate 1000000 0)),
          Request (POST_chunk ''item'' 0 (replicate 1000000 0))]\<rparr>)"
proof -
  have "forceUseChunking (uploader_of server_down True)" by (simp add: uploader_of_def)
  then show ?thesis by (simp add: transactionUploader_def forced_chunked_hangs)
qed

text \<open>
  C5 at an input where it fails: a batch of one item that is uploaded in chunks, and a
  server whose chunk uploads all fail. The promise of the chunk never settles (see C3),
  so \<open>processItem\<close>, the retry around it and the task of the pool never settle either:
  \<open>concurrentUploader\<close> neither returns its errors and results nor rejects.
\<close>

theorem batch_hangs_with_a_stuck_chunk:
  "concurrentUploader (uploader_of server_down True) [BufferItem (replicate 1000000 0)] 5
      (None :: (item \<Rightarrow> response \<Rightarrow> nat \<Rightarrow> unit settled) option) (Some (\<lambda>text. None)) start =
     (Hangs,
      \<lparr>server = (), trace =
         [Request (GET_chunks ''item'' 1000000),
          Started 0,
          Request (POST_chunk ''item'' 0 (replicate 1000000 0)),
          Request (POST_chunk ''item'' 0 (replicate 1000000 0)),
          Request (POST_chunk ''item'' 0 (replicate 1000000 0))]\<rparr>)"
proof -
  have p: "processItem (uploader_of server_down True) (BufferItem (replicate 1000000 0)) w =
      transactionUploader (uploader_of server_down True)
        \<lparr>raw = replicate 1000000 0, txid = ''item''\<rparr> w" for w
    by (simp add: processItem_def uploader_of_def)
  have r: "retry_budget (uploader_of server_down True)
      (Some \<lparr>retries = 3, minTimeout = 1000, maxTimeout = 10000\<rparr>) = Suc (Suc 0)"
    by (simp add: uploader_of_def)
  show ?thesis
    by (simp add: concurrentUploader_def pool_concurrency_def item_task_def item_attempt_def
        p r forced_chunking_hangs start_def)
qed

end
